theory Spec2Isabelle
  imports Complex_Main "HOL-Library.Sublist"
begin

section \<open>Data model\<close>

text \<open>
  The tutoring backend keeps one record per session in a key-value store (Redis), writes
  finished sessions to durable tables (Supabase), retrieves reference documents from a
  content table and calls a language model. The session record is the Python dictionary
  built by \<^verbatim>\<open>SessionService.create_session\<close>. The three difficulty levels of
  \<^verbatim>\<open>Config.DIFFICULTY_LEVELS\<close>, the two session states, the two speaker roles and the five
  strategy tags are the only values the code ever stores in the corresponding fields, so
  they are datatypes here; \<open>level_name\<close> gives the string the code uses.

  Strings are lists of HOL characters; the model covers ASCII text. Python floats are
  modelled by exact reals: the estimator compares quotients of word counts with the
  constants 0.8, 5, 10 and 3, and rounding cannot change the outcome of these comparisons
  for any message shorter than \<open>10^15\<close> characters.
\<close>

datatype difficulty = beginner | intermediate | advanced

datatype status = active | ended

datatype strategy = assessment | test_prep | concept_teaching | session_ending | general_teaching

fun level_name :: "difficulty \<Rightarrow> string" where
  "level_name beginner = ''beginner''"
| "level_name intermediate = ''intermediate''"
| "level_name advanced = ''advanced''"

text \<open>
  A turn of the conversation history: the two dictionary shapes that
  \<^verbatim>\<open>process_student_message\<close> appends (type \<open>student\<close> and type \<open>teacher\<close>).
\<close>

datatype turn =
  StudentTurn (turn_message: string) (turn_timestamp: string) difficulty int
| TeacherTurn (turn_message: string) (turn_timestamp: string) strategy nat

fun is_student :: "turn \<Rightarrow> bool" where
  "is_student (StudentTurn m t l s) = True"
| "is_student (TeacherTurn m t st k) = False"

record session =
  session_id :: string
  user_id :: string
  created_at :: string
  user_data :: "(string \<times> string) list"
  conversation_history :: "turn list"
  difficulty_level :: difficulty
  subject :: string
  proficiency_score :: int
  interaction_count :: int
  initial_proficiency :: int
  session_status :: status
  ended_at :: "string option"
  session_duration :: "real option"

section \<open>Proficiency estimator\<close>

text \<open>\<^verbatim>\<open>str.split()\<close>: split on runs of whitespace, no empty words.\<close>

definition is_space :: "char \<Rightarrow> bool" where
  "is_space c \<longleftrightarrow> c \<in> set [CHR 0x09, CHR 0x0A, CHR 0x0B, CHR 0x0C, CHR 0x0D,
                             CHR 0x1C, CHR 0x1D, CHR 0x1E, CHR 0x1F, CHR '' '']"

fun split_from :: "string \<Rightarrow> string \<Rightarrow> string list" where
  "split_from cur [] = (if cur = [] then [] else [rev cur])"
| "split_from cur (c # cs) =
     (if is_space c then (if cur = [] then split_from [] cs else rev cur # split_from [] cs)
      else split_from (c # cur) cs)"

definition split :: "string \<Rightarrow> string list" where
  "split message = split_from [] message"

text \<open>\<^verbatim>\<open>str.lower()\<close> on ASCII letters.\<close>

definition lower_char :: "char \<Rightarrow> char" where
  "lower_char c =
     (case map_of (zip ''ABCDEFGHIJKLMNOPQRSTUVWXYZ'' ''abcdefghijklmnopqrstuvwxyz'') c of
        Some d \<Rightarrow> d
      | None \<Rightarrow> c)"

definition lower :: "string \<Rightarrow> string" where
  "lower s = map lower_char s"

text \<open>\<^verbatim>\<open>str.strip(chars)\<close>: drop the given characters from both ends.\<close>

definition strip :: "string \<Rightarrow> string \<Rightarrow> string" where
  "strip chars s = rev (dropWhile (\<lambda>c. c \<in> set chars) (rev (dropWhile (\<lambda>c. c \<in> set chars) s)))"

text \<open>\<^verbatim>\<open>str.count(c)\<close> for a one-character argument.\<close>

definition count :: "string \<Rightarrow> char \<Rightarrow> nat" where
  "count s c = length (filter (\<lambda>d. d = c) s)"

record complexity_indicators =
  vocabulary_diversity :: real
  average_word_length :: real
  sentence_count :: nat
  sentence_length :: real
  grammar_complexity :: nat
  question_complexity :: nat

record proficiency_analysis =
  score_change :: int
  indicators :: complexity_indicators

definition complexity_of :: "string \<Rightarrow> complexity_indicators" where
  "complexity_of message =
     (let words = split message;
          unique_words = remdups (map (\<lambda>word. strip ''.,!?'' (lower word)) words)
      in \<lparr> vocabulary_diversity =
             (if words \<noteq> [] then real (length unique_words) / real (length words) else 0),
           average_word_length =
             (if words \<noteq> [] then real (sum_list (map length words)) / real (length words) else 0),
           sentence_count = count message CHR ''.'' + count message CHR ''!'' + count message CHR ''?'' + 1,
           sentence_length =
             real (length words) /
             real (max 1 (count message CHR ''.'' + count message CHR ''!'' + count message CHR ''?'' + 1)),
           grammar_complexity = count message CHR '','' + count message CHR '';'' + count message CHR '':'',
           question_complexity = count message CHR ''?'' \<rparr>)"

text \<open>
  \<^verbatim>\<open>TeachingService._analyze_proficiency\<close>. The source reads \<open>difficulty_level\<close> and
  \<open>proficiency_score\<close> from the session; the score is bound to a local that is not
  used afterwards.
\<close>

definition analyze_proficiency :: "string \<Rightarrow> session \<Rightarrow> proficiency_analysis" where
  "analyze_proficiency message session_data =
     (let words = split message;
          ci = complexity_of message;
          current_level = difficulty_level session_data;
          current_score = proficiency_score session_data
      in \<lparr> score_change =
             (if vocabulary_diversity ci > 0.8 \<and> average_word_length ci > 5 then
                (if current_level = beginner then 5
                 else if current_level = intermediate then 3
                 else 0)
              else if sentence_length ci > 10 \<and> current_level = beginner then 3
              else if sentence_length ci < 3 \<and> current_level = advanced then - 2
              else if length words < 3 \<and> current_level \<in> set [intermediate, advanced] then - 1
              else 0),
           indicators = ci \<rparr>)"

section \<open>Session state\<close>

text \<open>
  The live store maps the Redis key of a session to its record; \<^verbatim>\<open>json.dumps\<close> followed
  by \<^verbatim>\<open>json.loads\<close> is the identity on these records. The expiry of a key is a matter of
  real time and is not modelled: a key stays until it is deleted. The operations of the
  live store themselves always succeed.
\<close>

type_synonym redis = "string \<rightharpoonup> session"

definition session_key :: "string \<Rightarrow> string" where
  "session_key sid = ''session:'' @ sid"

definition get_session :: "redis \<Rightarrow> string \<Rightarrow> session option" where
  "get_session r sid = r (session_key sid)"

text \<open>
  \<^verbatim>\<open>SessionService.create_session\<close>. The two random UUIDs and the reading of the clock
  are arguments. The keys \<open>ended_at\<close> and \<open>session_duration\<close> are absent from a new
  dictionary.
\<close>

definition create_session ::
  "redis \<Rightarrow> string \<Rightarrow> string \<Rightarrow> string \<Rightarrow> (string \<times> string) list \<Rightarrow> redis \<times> string" where
  "create_session r new_uuid anon_uuid timestamp data =
     (let sid = new_uuid;
          uid = (case map_of data ''user_id'' of
                   Some u \<Rightarrow> u
                 | None \<Rightarrow> ''anonymous_'' @ anon_uuid);
          session_data =
            \<lparr> session_id = sid,
              user_id = uid,
              created_at = timestamp,
              user_data = data,
              conversation_history = [],
              difficulty_level = intermediate,
              subject = ''english'',
              proficiency_score = 50,
              interaction_count = 0,
              initial_proficiency = 50,
              session_status = active,
              ended_at = None,
              session_duration = None \<rparr>
      in (r(session_key sid \<mapsto> session_data), sid))"

text \<open>
  \<^verbatim>\<open>update_session\<close> is called by the two mutators below with the whole modified record as
  \<open>updates\<close>, so \<^verbatim>\<open>session_data.update(updates)\<close> yields that record.
\<close>

definition update_session :: "redis \<Rightarrow> string \<Rightarrow> session \<Rightarrow> redis \<times> bool" where
  "update_session r sid updates =
     (case get_session r sid of
        Some session_data \<Rightarrow> (r(session_key sid \<mapsto> updates), True)
      | None \<Rightarrow> (r, False))"

definition add_to_conversation :: "redis \<Rightarrow> string \<Rightarrow> turn \<Rightarrow> redis \<times> bool" where
  "add_to_conversation r sid message =
     (case get_session r sid of
        Some session_data \<Rightarrow>
          update_session r sid
            (session_data\<lparr> conversation_history := conversation_history session_data @ [message],
                           interaction_count := interaction_count session_data + 1 \<rparr>)
      | None \<Rightarrow> (r, False))"

definition update_proficiency :: "redis \<Rightarrow> string \<Rightarrow> int \<Rightarrow> redis \<times> bool" where
  "update_proficiency r sid change =
     (case get_session r sid of
        Some session_data \<Rightarrow>
          (let current_score = proficiency_score session_data;
               new_score = max 0 (min 100 (current_score + change))
           in update_session r sid
                (session_data\<lparr> proficiency_score := new_score,
                               difficulty_level :=
                                 (if new_score \<ge> 75 then advanced
                                  else if new_score \<ge> 40 then intermediate
                                  else beginner) \<rparr>))
      | None \<Rightarrow> (r, False))"

section \<open>Teaching prompts\<close>

text \<open>The five instruction templates of \<^verbatim>\<open>TeachingPrompts\<close>, parameterised by the level.\<close>

definition base_prompt :: string where
  "base_prompt =
     ''\<newline>'' @
     ''        You are an expert English language teacher. This is one of your first interactions \<newline>'' @
     ''        with this student. Your goal is to assess their current English proficiency while \<newline>'' @
     ''        being encouraging and supportive.\<newline>'' @
     ''        \<newline>'' @
     ''        Guidelines:\<newline>'' @
     ''        - Ask engaging questions that help gauge their level\<newline>'' @
     ''        - Be patient and encouraging\<newline>'' @
     ''        - Provide gentle corrections if needed\<newline>'' @
     ''        - Adapt your language complexity to their apparent level\<newline>'' @
     ''        ''"

fun level_specific :: "difficulty \<Rightarrow> string" where
  "level_specific beginner =
     ''Use simple vocabulary and short sentences. Focus on basic concepts.''"
| "level_specific intermediate =
     ''Use moderate vocabulary and clear explanations. Introduce some complex concepts.''"
| "level_specific advanced =
     ''Use sophisticated vocabulary and engage in complex discussions.''"

definition get_assessment_prompt :: "difficulty \<Rightarrow> string" where
  "get_assessment_prompt level =
     base_prompt @
     ''\<newline>'' @
     ''\<newline>'' @
     ''Level-specific guidance: '' @
     level_specific level"

definition get_test_prep_prompt :: "difficulty \<Rightarrow> string" where
  "get_test_prep_prompt level =
     ''\<newline>'' @
     ''        You are a tutor helping a student prepare for an English language test at '' @
     level_name level @
     '' level.\<newline>'' @
     ''        \<newline>'' @
     ''        * Generate practice questions appropriate for '' @
     level_name level @
     '' level\<newline>'' @
     ''        * Start simple, then make questions more difficult if the student answers correctly\<newline>'' @
     ''        * Prompt the student to explain their reasoning\<newline>'' @
     ''        * After the student explains their choice, affirm correct answers or guide them to correct mistakes\<newline>'' @
     ''        * If a student requests to move on, give the correct answer and continue\<newline>'' @
     ''        * After 5 questions, offer a summary of their performance and study recommendations\<newline>'' @
     ''        \<newline>'' @
     ''        Adapt your vocabulary and complexity to '' @
     level_name level @
     '' level.\<newline>'' @
     ''        ''"

definition get_concept_teaching_prompt :: "difficulty \<Rightarrow> string" where
  "get_concept_teaching_prompt level =
     ''\<newline>'' @
     ''        Be a friendly, supportive English tutor at '' @
     level_name level @
     '' level. Guide the student \<newline>'' @
     ''        to understand English concepts through questions rather than direct explanation.\<newline>'' @
     ''        \<newline>'' @
     ''        * Ask guiding questions to help students take incremental steps toward understanding\<newline>'' @
     ''        * Use vocabulary appropriate for '' @
     level_name level @
     '' level\<newline>'' @
     ''        * Pose just one question per turn to avoid overwhelming the student\<newline>'' @
     ''        * Be encouraging and patient\<newline>'' @
     ''        * Wrap up once the student shows evidence of understanding\<newline>'' @
     ''        \<newline>'' @
     ''        Remember to match your language complexity to '' @
     level_name level @
     '' level.\<newline>'' @
     ''        ''"

definition get_general_teaching_prompt :: "difficulty \<Rightarrow> string" where
  "get_general_teaching_prompt level =
     ''\<newline>'' @
     ''        You are a friendly English conversation partner and teacher for a '' @
     level_name level @
     '' \<newline>'' @
     ''        level student. Help them practice English through natural conversation while \<newline>'' @
     ''        providing gentle corrections and learning opportunities.\<newline>'' @
     ''        \<newline>'' @
     ''        * Engage in natural conversation appropriate for '' @
     level_name level @
     '' level\<newline>'' @
     ''        * Provide gentle corrections when needed\<newline>'' @
     ''        * Ask follow-up questions to encourage more speaking\<newline>'' @
     ''        * Introduce new vocabulary naturally\<newline>'' @
     ''        * Be patient and encouraging\<newline>'' @
     ''        \<newline>'' @
     ''        Adjust your vocabulary and sentence complexity for '' @
     level_name level @
     '' level.\<newline>'' @
     ''        ''"

definition get_session_ending_prompt :: "difficulty \<Rightarrow> string" where
  "get_session_ending_prompt level =
     ''\<newline>'' @
     ''        You are an English tutor helping a '' @
     level_name level @
     '' level student who seems \<newline>'' @
     ''        ready to end the session. Provide a warm, encouraging conclusion to the learning session.\<newline>'' @
     ''        \<newline>'' @
     ''        * Acknowledge their effort and progress made during the session\<newline>'' @
     ''        * Provide a brief, positive summary of what they practiced\<newline>'' @
     ''        * Give encouragement for continued learning\<newline>'' @
     ''        * Offer a friendly goodbye appropriate for '' @
     level_name level @
     '' level\<newline>'' @
     ''        * Suggest they can return anytime to continue learning\<newline>'' @
     ''        \<newline>'' @
     ''        Keep your language appropriate for '' @
     level_name level @
     '' level and be warm and supportive.\<newline>'' @
     ''        ''"

section \<open>Collaborators\<close>

text \<open>
  The external services are parameters of the model. A call that raises is \<open>None\<close>:
  \<^item> \<open>active_model\<close>: \<^verbatim>\<open>ModelManager.get_active_model()\<close> applied to the message list, giving
    the \<^verbatim>\<open>content\<close> of the reply;
  \<^item> \<open>embed_query\<close>: the embedding provider;
  \<^item> \<open>documents_table\<close>: the rows of the content table in insertion order, \<open>None\<close> when
    the content store raises on \<^verbatim>\<open>execute()\<close>;
  \<^item> \<open>insert_result_of\<close>: what an insert into the named durable table does;
  \<^item> \<open>now\<close>: the successive readings of \<^verbatim>\<open>datetime.now().isoformat()\<close> in one operation;
  \<^item> \<open>minutes_between\<close>: the rounded number of minutes between two ISO timestamps,
    \<open>None\<close> when \<^verbatim>\<open>datetime.fromisoformat\<close> raises.
\<close>

datatype llm_message = SystemMessage string | HumanMessage string

record document =
  doc_content :: string
  doc_metadata :: "(string \<times> string) list"
  doc_embedding :: "real list"
  doc_subject :: string
  doc_difficulty_level :: string
  doc_content_type :: string

datatype insert_result = InsertRaises | InsertNoData | InsertStored

record collaborators =
  active_model :: "llm_message list \<Rightarrow> string option"
  embed_query :: "string \<Rightarrow> real list option"
  documents_table :: "document list option"
  insert_result_of :: "string \<Rightarrow> insert_result"
  now :: "nat \<Rightarrow> string"
  minutes_between :: "string \<Rightarrow> string \<Rightarrow> real option"

section \<open>Retrieval engine\<close>

record snippet =
  content :: string
  metadata :: "(string \<times> string) list"
  score :: real

text \<open>One \<^verbatim>\<open>.eq(column, value)\<close> of the query builder; unknown filter keys are ignored.\<close>

fun apply_filter :: "string \<times> string \<Rightarrow> document list \<Rightarrow> document list" where
  "apply_filter (key, v) search_query =
     (if key = ''subject'' then filter (\<lambda>d. doc_subject d = v) search_query
      else if key = ''difficulty_level'' then filter (\<lambda>d. doc_difficulty_level d = v) search_query
      else if key = ''content_type'' then filter (\<lambda>d. doc_content_type d = v) search_query
      else search_query)"

text \<open>
  What the specification asks of the filters: a row passes when it agrees exactly with
  every filter on one of the three known columns.
\<close>

definition matches_filters :: "(string \<times> string) list \<Rightarrow> document \<Rightarrow> bool" where
  "matches_filters fs d =
     list_all (\<lambda>(key, v). (if key = ''subject'' then doc_subject d = v else True)
                         \<and> (if key = ''difficulty_level'' then doc_difficulty_level d = v else True)
                         \<and> (if key = ''content_type'' then doc_content_type d = v else True)) fs"

text \<open>
  \<^verbatim>\<open>sorted(xs, key=..., reverse=True)\<close>: a stable descending sort, which Python performs
  by reversing, sorting stably in ascending order and reversing again.
\<close>

definition sorted_reverse :: "('a \<Rightarrow> real) \<Rightarrow> 'a list \<Rightarrow> 'a list" where
  "sorted_reverse key xs = rev (sort_key key (rev xs))"

text \<open>
  \<^verbatim>\<open>VectorService.hybrid_search\<close>. The query embedding is computed and not used; every
  returned row gets the score 0.8. Any exception gives the empty list.
\<close>

definition hybrid_search ::
  "collaborators \<Rightarrow> string \<Rightarrow> (string \<times> string) list \<Rightarrow> nat \<Rightarrow> snippet list" where
  "hybrid_search env query metadata_filters limit =
     (case embed_query env query of
        None \<Rightarrow> []
      | Some query_embedding \<Rightarrow>
          (case documents_table env of
             None \<Rightarrow> []
           | Some rows \<Rightarrow>
               (let results = take limit (fold apply_filter metadata_filters rows);
                    scored_results =
                      map (\<lambda>doc. \<lparr> content = doc_content doc,
                                    metadata = doc_metadata doc,
                                    score = 0.8 \<rparr>) results
                in sorted_reverse score scored_results)))"

definition search_by_difficulty ::
  "collaborators \<Rightarrow> string \<Rightarrow> string \<Rightarrow> string \<Rightarrow> snippet list" where
  "search_by_difficulty env query level subj =
     hybrid_search env query [(''subject'', subj), (''difficulty_level'', level)] 5"

text \<open>
  The metric the specification requires for ranking: the cosine of the angle between the
  query embedding and a stored embedding.
\<close>

definition dot :: "real list \<Rightarrow> real list \<Rightarrow> real" where
  "dot u v = sum_list (map (\<lambda>(a, b). a * b) (zip u v))"

definition spec_cosine_similarity :: "real list \<Rightarrow> real list \<Rightarrow> real" where
  "spec_cosine_similarity u v = dot u v / (sqrt (dot u u) * sqrt (dot v v))"

section \<open>Response orchestrator\<close>

fun join :: "string \<Rightarrow> string list \<Rightarrow> string" where
  "join sep [] = []"
| "join sep [x] = x"
| "join sep (x # y # ys) = x @ sep @ join sep (y # ys)"

fun str_nat :: "nat \<Rightarrow> string" where
  "str_nat n =
     (if n < 10 then [''0123456789'' ! n]
      else str_nat (n div 10) @ [''0123456789'' ! (n mod 10)])"

declare str_nat.simps [simp del]

definition str_int :: "int \<Rightarrow> string" where
  "str_int i = (if i < 0 then ''-'' @ str_nat (nat (- i)) else str_nat (nat i))"

text \<open>\<^verbatim>\<open>any(word in message.lower() for word in words)\<close>, with substring containment.\<close>

definition contains_any :: "string \<Rightarrow> string list \<Rightarrow> bool" where
  "contains_any message keywords = list_ex (\<lambda>word. sublist word (lower message)) keywords"

text \<open>
  The \<^verbatim>\<open>if\<close>/\<^verbatim>\<open>elif\<close> chain of \<^verbatim>\<open>_generate_adaptive_response\<close> that picks the system
  instruction and the strategy tag.
\<close>

definition select_instruction :: "string \<Rightarrow> session \<Rightarrow> string \<times> strategy" where
  "select_instruction message session_data =
     (if interaction_count session_data < 3 then
        (get_assessment_prompt (difficulty_level session_data), assessment)
      else if contains_any message [''test'', ''quiz'', ''exam'', ''practice''] then
        (get_test_prep_prompt (difficulty_level session_data), test_prep)
      else if CHR ''?'' \<in> set message
              \<or> contains_any message [''what'', ''how'', ''why'', ''when'', ''where''] then
        (get_concept_teaching_prompt (difficulty_level session_data), concept_teaching)
      else if contains_any message [''bye'', ''goodbye'', ''end'', ''finish'', ''stop'', ''done''] then
        (get_session_ending_prompt (difficulty_level session_data), session_ending)
      else
        (get_general_teaching_prompt (difficulty_level session_data), general_teaching))"

definition build_context :: "snippet list \<Rightarrow> string" where
  "build_context search_results =
     (if search_results = [] then ''No specific context found.''
      else join ''\<newline>''
             (map (\<lambda>result. ''- '' @ take 200 (content result) @ ''...'') (take 3 search_results)))"

definition build_conversation_context :: "turn list \<Rightarrow> string" where
  "build_conversation_context recent_messages =
     (if recent_messages = [] then ''This is the beginning of the conversation.''
      else join ''\<newline>''
             (map (\<lambda>msg. (if is_student msg then ''Student'' else ''Teacher'') @ '': '' @
                           take 100 (turn_message msg) @ ''...'') recent_messages))"

definition human_content :: "string \<Rightarrow> string \<Rightarrow> session \<Rightarrow> string \<Rightarrow> string" where
  "human_content context recent_conversation session_data message =
     ''\<newline>'' @
     ''            Context from knowledge base: '' @
     context @
     ''\<newline>'' @
     ''            \<newline>'' @
     ''            Recent conversation: '' @
     recent_conversation @
     ''\<newline>'' @
     ''            \<newline>'' @
     ''            Student's current level: '' @
     level_name (difficulty_level session_data) @
     ''\<newline>'' @
     ''            Student's proficiency score: '' @
     str_int (proficiency_score session_data) @
     ''/100\<newline>'' @
     ''            Total interactions in session: '' @
     str_int (interaction_count session_data) @
     ''\<newline>'' @
     ''            Student's message: '' @
     message @
     ''\<newline>'' @
     ''            \<newline>'' @
     ''            Provide an appropriate response that matches their proficiency level and learning needs.\<newline>'' @
     ''            ''"

text \<open>
  \<^verbatim>\<open>TeachingService._generate_adaptive_response\<close>: \<open>None\<close> when obtaining or calling the
  model raises, otherwise the reply and the strategy tag.
\<close>

definition generate_adaptive_response ::
  "collaborators \<Rightarrow> string \<Rightarrow> session \<Rightarrow> snippet list \<Rightarrow> (string \<times> strategy) option" where
  "generate_adaptive_response env message session_data search_results =
     (let history = conversation_history session_data;
          (system_instruction, strat) = select_instruction message session_data;
          context = build_context search_results;
          recent_conversation = build_conversation_context (drop (length history - 6) history);
          messages = [SystemMessage system_instruction,
                      HumanMessage (human_content context recent_conversation session_data message)]
      in case active_model env messages of
           None \<Rightarrow> None
         | Some reply \<Rightarrow> Some (reply, strat))"

record chat_result =
  res_response :: string
  res_difficulty_level :: difficulty
  res_proficiency_score :: int
  res_teaching_strategy :: strategy
  res_session_id :: string
  res_interaction_count :: int

text \<open>
  \<^verbatim>\<open>TeachingService.process_student_message\<close>. The result is \<open>Inl\<close> of the error text of
  the returned \<^verbatim>\<open>{"error": ...}\<close> dictionary, or \<open>Inr\<close> of the reply dictionary. The
  \<^verbatim>\<open>except\<close> clause turns every exception of the body into
  \<open>Failed to process message\<close>.

  The function is given in two parts. \<open>respond\<close> is the second half of the body, from the
  retrieval step to the \<^verbatim>\<open>return\<close>, run on the store and the session data as they are
  after the proficiency update.
\<close>

definition respond ::
  "collaborators \<Rightarrow> redis \<Rightarrow> string \<Rightarrow> string \<Rightarrow> session \<Rightarrow> redis \<times> (string + chat_result)" where
  "respond env r1 sid message session_data =
     (let search_results =
            search_by_difficulty env message
              (level_name (difficulty_level session_data)) (subject session_data)
      in case generate_adaptive_response env message session_data search_results of
           None \<Rightarrow> (r1, Inl ''Failed to process message'')
         | Some (reply, strat) \<Rightarrow>
             (let r2 = fst (add_to_conversation r1 sid
                         (StudentTurn message (now env 0)
                            (difficulty_level session_data)
                            (proficiency_score session_data)));
                  r3 = fst (add_to_conversation r2 sid
                         (TeacherTurn reply (now env 1) strat (length search_results)))
              in (r3, Inr \<lparr> res_response = reply,
                           res_difficulty_level = difficulty_level session_data,
                           res_proficiency_score = proficiency_score session_data,
                           res_teaching_strategy = strat,
                           res_session_id = sid,
                           res_interaction_count = interaction_count session_data \<rparr>)))"

definition process_student_message ::
  "collaborators \<Rightarrow> redis \<Rightarrow> string \<Rightarrow> string \<Rightarrow> redis \<times> (string + chat_result)" where
  "process_student_message env r sid message =
     (case get_session r sid of
        None \<Rightarrow> (r, Inl ''Invalid session'')
      | Some session_data0 \<Rightarrow>
          if session_status session_data0 \<noteq> active then (r, Inl ''Session is not active'')
          else
            (let analysis = analyze_proficiency message session_data0;
                 r1 = (if score_change analysis \<noteq> 0
                       then fst (update_proficiency r sid (score_change analysis)) else r);
                 refreshed = (if score_change analysis \<noteq> 0
                              then get_session r1 sid else Some session_data0)
             in case refreshed of
                  None \<Rightarrow> (r1, Inl ''Failed to process message'')
                | Some session_data \<Rightarrow> respond env r1 sid message session_data))"

section \<open>Ending a session\<close>

text \<open>
  The durable tables hold one row per successful insert. An insert either raises
  (nothing stored), returns without data (nothing stored, \<^verbatim>\<open>bool(result.data)\<close> is false)
  or stores the row and returns it.
\<close>

record conversation_record =
  cr_session_id :: string
  cr_user_id :: string
  cr_conversation_data :: "turn list"
  cr_message_count :: nat
  cr_subject :: string
  cr_final_difficulty_level :: difficulty
  cr_final_proficiency_score :: int
  cr_created_at :: string
  cr_ended_at :: "string option"
  cr_session_duration_minutes :: real

record summary_record =
  sr_session_id :: string
  sr_user_id :: string
  sr_subject :: string
  sr_initial_proficiency_score :: int
  sr_final_proficiency_score :: int
  sr_proficiency_improvement :: int
  sr_initial_difficulty_level :: difficulty
  sr_final_difficulty_level :: difficulty
  sr_total_interactions :: int
  sr_session_duration_minutes :: real
  sr_created_at :: string
  sr_ended_at :: "string option"
  sr_session_status :: status

record experience_record =
  er_session_id :: string
  er_user_id :: string
  er_rating :: "string option"
  er_feedback_text :: "string option"
  er_usefulness_rating :: "string option"
  er_difficulty_appropriate :: "string option"
  er_would_recommend :: "string option"
  er_improvement_suggestions :: "string option"
  er_favorite_features :: "string option"
  er_created_at :: string

record stores =
  redis_store :: redis
  conversation_history_table :: "conversation_record list"
  session_summaries_table :: "summary_record list"
  user_experiences_table :: "experience_record list"

definition DEFAULT_DIFFICULTY :: difficulty where
  "DEFAULT_DIFFICULTY = intermediate"

definition calculate_session_duration :: "collaborators \<Rightarrow> session \<Rightarrow> real" where
  "calculate_session_duration env session_data =
     (case ended_at session_data of
        None \<Rightarrow> 0
      | Some end_time \<Rightarrow>
          (case minutes_between env (created_at session_data) end_time of
             None \<Rightarrow> 0
           | Some duration \<Rightarrow> duration))"

definition store_conversation_history :: "collaborators \<Rightarrow> stores \<Rightarrow> session \<Rightarrow> stores \<times> bool" where
  "store_conversation_history env st session_data =
     (let conversation_rec =
            \<lparr> cr_session_id = session_id session_data,
              cr_user_id = user_id session_data,
              cr_conversation_data = conversation_history session_data,
              cr_message_count = length (conversation_history session_data),
              cr_subject = subject session_data,
              cr_final_difficulty_level = difficulty_level session_data,
              cr_final_proficiency_score = proficiency_score session_data,
              cr_created_at = created_at session_data,
              cr_ended_at = ended_at session_data,
              cr_session_duration_minutes =
                (case session_duration session_data of None \<Rightarrow> 0 | Some d \<Rightarrow> d) \<rparr>
      in case insert_result_of env ''conversation_history'' of
           InsertStored \<Rightarrow>
             (st\<lparr> conversation_history_table := conversation_history_table st @ [conversation_rec] \<rparr>,
              True)
         | InsertNoData \<Rightarrow> (st, False)
         | InsertRaises \<Rightarrow> (st, False))"

definition store_session_summary :: "collaborators \<Rightarrow> stores \<Rightarrow> session \<Rightarrow> stores \<times> bool" where
  "store_session_summary env st session_data =
     (let summary_rec =
            \<lparr> sr_session_id = session_id session_data,
              sr_user_id = user_id session_data,
              sr_subject = subject session_data,
              sr_initial_proficiency_score = initial_proficiency session_data,
              sr_final_proficiency_score = proficiency_score session_data,
              sr_proficiency_improvement =
                proficiency_score session_data - initial_proficiency session_data,
              sr_initial_difficulty_level = DEFAULT_DIFFICULTY,
              sr_final_difficulty_level = difficulty_level session_data,
              sr_total_interactions = interaction_count session_data,
              sr_session_duration_minutes =
                (case session_duration session_data of None \<Rightarrow> 0 | Some d \<Rightarrow> d),
              sr_created_at = created_at session_data,
              sr_ended_at = ended_at session_data,
              sr_session_status = session_status session_data \<rparr>
      in case insert_result_of env ''session_summaries'' of
           InsertStored \<Rightarrow>
             (st\<lparr> session_summaries_table := session_summaries_table st @ [summary_rec] \<rparr>, True)
         | InsertNoData \<Rightarrow> (st, False)
         | InsertRaises \<Rightarrow> (st, False))"

text \<open>The feedback dictionary is an association list; its values are kept as text.\<close>

definition store_user_experience ::
  "collaborators \<Rightarrow> stores \<Rightarrow> string \<Rightarrow> string \<Rightarrow> (string \<times> string) list \<Rightarrow> stores \<times> bool" where
  "store_user_experience env st sid uid experience_data =
     (let experience_rec =
            \<lparr> er_session_id = sid,
              er_user_id = uid,
              er_rating = map_of experience_data ''rating'',
              er_feedback_text = map_of experience_data ''feedback'',
              er_usefulness_rating = map_of experience_data ''usefulness_rating'',
              er_difficulty_appropriate = map_of experience_data ''difficulty_appropriate'',
              er_would_recommend = map_of experience_data ''would_recommend'',
              er_improvement_suggestions = map_of experience_data ''improvement_suggestions'',
              er_favorite_features = map_of experience_data ''favorite_features'',
              er_created_at = now env 1 \<rparr>
      in case insert_result_of env ''user_experiences'' of
           InsertStored \<Rightarrow>
             (st\<lparr> user_experiences_table := user_experiences_table st @ [experience_rec] \<rparr>, True)
         | InsertNoData \<Rightarrow> (st, False)
         | InsertRaises \<Rightarrow> (st, False))"

text \<open>
  \<^verbatim>\<open>SessionService.end_session\<close>. The three store helpers catch their own exceptions,
  so the body runs to the deletion of the key whatever the inserts did. A missing or
  empty feedback dictionary is the empty list.
\<close>

definition end_session ::
  "collaborators \<Rightarrow> stores \<Rightarrow> string \<Rightarrow> (string \<times> string) list \<Rightarrow> stores \<times> bool" where
  "end_session env st sid user_experience =
     (case get_session (redis_store st) sid of
        None \<Rightarrow> (st, False)
      | Some session_data0 \<Rightarrow>
          (let marked = session_data0\<lparr> ended_at := Some (now env 0), session_status := ended \<rparr>;
               session_data =
                 marked\<lparr> session_duration := Some (calculate_session_duration env marked) \<rparr>;
               (st1, conversation_stored) = store_conversation_history env st session_data;
               st2 = (if user_experience \<noteq> []
                      then fst (store_user_experience env st1 sid (user_id session_data)
                                  user_experience)
                      else st1);
               (st3, session_summary_stored) = store_session_summary env st2 session_data;
               st4 = st3\<lparr> redis_store := (redis_store st3)(session_key sid := None) \<rparr>
           in (st4, conversation_stored \<and> session_summary_stored)))"

section \<open>Example inputs\<close>

text \<open>
  A store holding one freshly created session, two content rows with orthogonal
  embeddings, and collaborators that all succeed, together with variants in which one
  collaborator fails.
\<close>

definition example_store :: redis where
  "example_store = fst (create_session Map.empty ''s1'' ''a1'' ''2025-01-01T10:00:00'' [])"

definition example_session :: session where
  "example_session =
     \<lparr> session_id = ''s1'',
       user_id = ''anonymous_a1'',
       created_at = ''2025-01-01T10:00:00'',
       user_data = [],
       conversation_history = [],
       difficulty_level = intermediate,
       subject = ''english'',
       proficiency_score = 50,
       interaction_count = 0,
       initial_proficiency = 50,
       session_status = active,
       ended_at = None,
       session_duration = None \<rparr>"

definition example_documents :: "document list" where
  "example_documents =
     [\<lparr> doc_content = ''Nouns name things.'',
        doc_metadata = [],
        doc_embedding = [1, 0],
        doc_subject = ''english'',
        doc_difficulty_level = ''intermediate'',
        doc_content_type = ''lesson'' \<rparr>,
      \<lparr> doc_content = ''The past tense describes finished actions.'',
        doc_metadata = [],
        doc_embedding = [0, 1],
        doc_subject = ''english'',
        doc_difficulty_level = ''intermediate'',
        doc_content_type = ''lesson'' \<rparr>]"

definition example_env :: collaborators where
  "example_env =
     \<lparr> active_model = (\<lambda>messages. Some ''Hello! What would you like to learn?''),
       embed_query = (\<lambda>text. Some [0, 1]),
       documents_table = Some example_documents,
       insert_result_of = (\<lambda>table. InsertStored),
       now = (\<lambda>k. if k = 0 then ''2025-01-01T10:05:00'' else ''2025-01-01T10:05:01''),
       minutes_between = (\<lambda>t0 t1. Some 5) \<rparr>"

definition example_stores :: stores where
  "example_stores =
     \<lparr> redis_store = example_store,
       conversation_history_table = [],
       session_summaries_table = [],
       user_experiences_table = [] \<rparr>"

definition no_model_env :: collaborators where
  "no_model_env = example_env\<lparr> active_model := (\<lambda>messages. None) \<rparr>"

definition no_embedding_env :: collaborators where
  "no_embedding_env = example_env\<lparr> embed_query := (\<lambda>text. None) \<rparr>"

definition no_content_env :: collaborators where
  "no_content_env = example_env\<lparr> documents_table := None \<rparr>"

definition empty_content_env :: collaborators where
  "empty_content_env = example_env\<lparr> documents_table := Some [] \<rparr>"

definition no_sink_env :: collaborators where
  "no_sink_env = example_env\<lparr> insert_result_of := (\<lambda>table. InsertRaises) \<rparr>"

section \<open>Shared facts\<close>

lemma example_store_session: "get_session example_store ''s1'' = Some example_session"
  by (simp add: example_store_def example_session_def create_session_def get_session_def Let_def)

lemma session_key_eq [simp]: "session_key a = session_key b \<longleftrightarrow> a = b"
  by (simp add: session_key_def)

lemma get_session_upd:
  "get_session (r(session_key sid \<mapsto> s)) k = (if k = sid then Some s else get_session r k)"
  by (simp add: get_session_def)

lemma add_to_conversation_Some:
  "get_session r sid = Some s \<Longrightarrow>
   fst (add_to_conversation r sid t) =
     r(session_key sid \<mapsto> s\<lparr> conversation_history := conversation_history s @ [t],
                               interaction_count := interaction_count s + 1 \<rparr>)"
  by (simp add: add_to_conversation_def update_session_def)

lemma update_proficiency_Some:
  "get_session r sid = Some s \<Longrightarrow>
   \<exists>sc lv. fst (update_proficiency r sid c) =
     r(session_key sid \<mapsto> s\<lparr> proficiency_score := sc, difficulty_level := lv \<rparr>)"
  unfolding update_proficiency_def update_session_def Let_def
  by (simp del: max.absorb1 max.absorb2 min.absorb1 min.absorb2 split del: if_split) blast

subsection \<open>Generation and the second half of message processing\<close>

lemma generate_fails:
  "(\<And>messages. active_model env messages = None) \<Longrightarrow>
   generate_adaptive_response env m s res = None"
  by (simp add: generate_adaptive_response_def Let_def split: prod.splits)

lemma generate_succeeds:
  "(\<And>messages. active_model env messages \<noteq> None) \<Longrightarrow>
   \<exists>reply. generate_adaptive_response env m s res = Some (reply, snd (select_instruction m s))"
  by (auto simp: generate_adaptive_response_def Let_def split: prod.splits option.splits)
     (metis option.distinct(1))

lemma generate_strategy:
  "generate_adaptive_response env m s res = Some (reply, strat) \<Longrightarrow>
   strat = snd (select_instruction m s)"
  by (auto simp: generate_adaptive_response_def Let_def split: prod.splits option.splits)

lemma respond_fails:
  "(\<And>messages. active_model env messages = None) \<Longrightarrow>
   respond env r1 sid m s1 = (r1, Inl ''Failed to process message'')"
  by (simp add: respond_def generate_fails Let_def)

lemma respond_Some:
  assumes "get_session r1 sid = Some s1"
    and "generate_adaptive_response env m s1
           (search_by_difficulty env m (level_name (difficulty_level s1)) (subject s1)) =
         Some (reply, strat)"
  shows "respond env r1 sid m s1 =
           (r1(session_key sid \<mapsto>
                 s1\<lparr> conversation_history := conversation_history s1 @
                       [StudentTurn m (now env 0) (difficulty_level s1) (proficiency_score s1),
                        TeacherTurn reply (now env 1) strat
                          (length (search_by_difficulty env m
                                     (level_name (difficulty_level s1)) (subject s1)))],
                     interaction_count := interaction_count s1 + 2 \<rparr>),
            Inr \<lparr> res_response = reply,
                  res_difficulty_level = difficulty_level s1,
                  res_proficiency_score = proficiency_score s1,
                  res_teaching_strategy = strat,
                  res_session_id = sid,
                  res_interaction_count = interaction_count s1 \<rparr>)"
  using assms
  by (simp add: respond_def Let_def add_to_conversation_Some get_session_upd add.commute)

text \<open>
  On a live, active session the first half of \<open>process_student_message\<close> changes at most
  the score and the level of that session and hands over to \<open>respond\<close>.
\<close>

lemma process_student_message_active:
  assumes "get_session r sid = Some s" "session_status s = active"
  shows "\<exists>r1 s1. process_student_message env r sid m = respond env r1 sid m s1
           \<and> get_session r1 sid = Some s1
           \<and> (\<forall>k. k \<noteq> sid \<longrightarrow> get_session r1 k = get_session r k)
           \<and> conversation_history s1 = conversation_history s
           \<and> interaction_count s1 = interaction_count s
           \<and> subject s1 = subject s"
proof (cases "score_change (analyze_proficiency m s) = 0")
  case True
  then have "process_student_message env r sid m = respond env r sid m s"
    using assms by (simp add: process_student_message_def Let_def)
  then show ?thesis using assms(1) by blast
next
  case False
  obtain sc lv where u: "fst (update_proficiency r sid (score_change (analyze_proficiency m s))) =
     r(session_key sid \<mapsto> s\<lparr> proficiency_score := sc, difficulty_level := lv \<rparr>)"
    using update_proficiency_Some [OF assms(1)] by blast
  define s1 where "s1 = s\<lparr> proficiency_score := sc, difficulty_level := lv \<rparr>"
  define r1 where "r1 = r(session_key sid \<mapsto> s1)"
  have g: "get_session r1 sid = Some s1" by (simp add: r1_def get_session_upd)
  have "process_student_message env r sid m = respond env r1 sid m s1"
    using assms False u g
    by (simp add: process_student_message_def Let_def s1_def [symmetric] r1_def [symmetric])
  moreover have "\<forall>k. k \<noteq> sid \<longrightarrow> get_session r1 k = get_session r k"
    by (simp add: r1_def get_session_upd)
  moreover have "conversation_history s1 = conversation_history s"
    "interaction_count s1 = interaction_count s" "subject s1 = subject s"
    by (simp_all add: s1_def)
  ultimately show ?thesis using g by blast
qed

lemma process_student_message_appends:
  assumes "get_session r sid = Some s" "session_status s = active"
    and "\<And>messages. active_model env messages \<noteq> None"
  shows "\<exists>r' out s'.
           process_student_message env r sid m = (r', Inr out)
         \<and> get_session r' sid = Some s'
         \<and> conversation_history s' = conversation_history s @
               [StudentTurn m (now env 0) (res_difficulty_level out) (res_proficiency_score out),
                TeacherTurn (res_response out) (now env 1) (res_teaching_strategy out)
                  (length (search_by_difficulty env m
                             (level_name (res_difficulty_level out)) (subject s)))]
         \<and> interaction_count s' = interaction_count s + 2"
proof -
  obtain r1 s1 where p: "process_student_message env r sid m = respond env r1 sid m s1"
    and g1: "get_session r1 sid = Some s1"
    and same: "conversation_history s1 = conversation_history s"
              "interaction_count s1 = interaction_count s" "subject s1 = subject s"
    using process_student_message_active [OF assms(1,2)] by metis
  obtain reply where
    g: "generate_adaptive_response env m s1
          (search_by_difficulty env m (level_name (difficulty_level s1)) (subject s1)) =
        Some (reply, snd (select_instruction m s1))"
    using generate_succeeds [OF assms(3)] by blast
  show ?thesis
    unfolding p respond_Some [OF g1 g]
    by (simp add: get_session_upd same)
qed

subsection \<open>Retrieval\<close>

lemma matches_filters_Cons:
  "matches_filters ((key, v) # fs) d \<longleftrightarrow>
     ((if key = ''subject'' then doc_subject d = v else True)
      \<and> (if key = ''difficulty_level'' then doc_difficulty_level d = v else True)
      \<and> (if key = ''content_type'' then doc_content_type d = v else True))
     \<and> matches_filters fs d"
  by (simp add: matches_filters_def)

lemma apply_filter_filter:
  "apply_filter (key, v) rows =
     filter (\<lambda>d. (if key = ''subject'' then doc_subject d = v else True)
                \<and> (if key = ''difficulty_level'' then doc_difficulty_level d = v else True)
                \<and> (if key = ''content_type'' then doc_content_type d = v else True)) rows"
  by simp

lemma fold_apply_filter: "fold apply_filter fs rows = filter (matches_filters fs) rows"
proof (induction fs arbitrary: rows)
  case Nil
  then show ?case by (simp add: matches_filters_def)
next
  case (Cons f fs)
  obtain key v where f: "f = (key, v)" by (cases f)
  have "fold apply_filter (f # fs) rows = filter (matches_filters fs) (apply_filter (key, v) rows)"
    using Cons.IH by (simp add: f del: apply_filter.simps)
  also have "\<dots> = filter (matches_filters ((key, v) # fs)) rows"
    unfolding apply_filter_filter filter_filter matches_filters_Cons ..
  finally show ?case by (simp only: f)
qed

lemma sort_key_all_equal: "(\<forall>x\<in>set xs. key x = c) \<Longrightarrow> sort_key key xs = xs"
proof (induction xs)
  case Nil
  then show ?case by simp
next
  case (Cons x xs)
  then have "sort_key key (x # xs) = insort_key key x xs" by simp
  also have "\<dots> = x # xs" using Cons.prems by (cases xs) auto
  finally show ?case .
qed

lemma sorted_reverse_all_equal: "(\<forall>x\<in>set xs. key x = c) \<Longrightarrow> sorted_reverse key xs = xs"
  by (simp add: sorted_reverse_def sort_key_all_equal [where c = c])

text \<open>
  When both collaborators answer, the result is the first \<open>limit\<close> matching rows in
  table order, each with the score 0.8.
\<close>

lemma hybrid_search_rows:
  assumes "embed_query env q = Some e" "documents_table env = Some rows"
  shows "hybrid_search env q fs limit =
           map (\<lambda>doc. \<lparr> content = doc_content doc, metadata = doc_metadata doc, score = 0.8 \<rparr>)
             (take limit (filter (matches_filters fs) rows))"
  using assms
  by (simp add: hybrid_search_def Let_def fold_apply_filter
        sorted_reverse_all_equal [where c = "0.8"])

lemma hybrid_search_embed_fails: "embed_query env q = None \<Longrightarrow> hybrid_search env q fs l = []"
  by (simp add: hybrid_search_def)

lemma hybrid_search_store_fails: "documents_table env = None \<Longrightarrow> hybrid_search env q fs l = []"
  by (simp add: hybrid_search_def split: option.splits)

lemma hybrid_search_no_match:
  "documents_table env = Some rows \<Longrightarrow> filter (matches_filters fs) rows = [] \<Longrightarrow>
   hybrid_search env q fs l = []"
  by (cases "embed_query env q") (simp_all add: hybrid_search_embed_fails hybrid_search_rows)

subsection \<open>Ending a session\<close>

lemma store_conversation_history_fails:
  "insert_result_of env ''conversation_history'' \<noteq> InsertStored \<Longrightarrow>
   store_conversation_history env st sd = (st, False)"
  by (simp add: store_conversation_history_def Let_def split: insert_result.splits)

lemma store_session_summary_fails:
  "insert_result_of env ''session_summaries'' \<noteq> InsertStored \<Longrightarrow>
   store_session_summary env st sd = (st, False)"
  by (simp add: store_session_summary_def Let_def split: insert_result.splits)

lemma end_session_unknown:
  "get_session (redis_store st) sid = None \<Longrightarrow> end_session env st sid ux = (st, False)"
  by (simp add: end_session_def)

lemma end_session_deletes:
  "get_session (redis_store (fst (end_session env st sid ux))) sid = None"
  by (cases "get_session (redis_store st) sid")
     (simp_all add: end_session_def Let_def get_session_def split: prod.splits)

lemma end_session_write_fails:
  assumes "get_session (redis_store st) sid = Some s"
    and "insert_result_of env ''conversation_history'' \<noteq> InsertStored
         \<or> insert_result_of env ''session_summaries'' \<noteq> InsertStored"
  shows "snd (end_session env st sid ux) = False"
  using assms
  by (auto simp: end_session_def Let_def store_conversation_history_fails
        store_session_summary_fails split: prod.splits)

section \<open>Session state: score and level\<close>

text \<open>
  C1. Whenever \<open>update_proficiency\<close> mutates a session, the stored score is the old
  score plus the change clamped to the range 0 to 100, and the stored level is the one the
  thresholds give for that stored score: advanced exactly from 75 up, intermediate exactly
  from 40 to 74, beginner exactly below 40. Both fields are written in the same store
  operation.
\<close>

theorem update_proficiency_clamps_and_levels:
  assumes "get_session r sid = Some s"
  shows "\<exists>r' s'. update_proficiency r sid change = (r', True)
           \<and> get_session r' sid = Some s'
           \<and> proficiency_score s' = max 0 (min 100 (proficiency_score s + change))
           \<and> 0 \<le> proficiency_score s' \<and> proficiency_score s' \<le> 100
           \<and> (difficulty_level s' = advanced \<longleftrightarrow> proficiency_score s' \<ge> 75)
           \<and> (difficulty_level s' = intermediate
                 \<longleftrightarrow> 40 \<le> proficiency_score s' \<and> proficiency_score s' < 75)
           \<and> (difficulty_level s' = beginner \<longleftrightarrow> proficiency_score s' < 40)"
  using assms
  by (auto simp: update_proficiency_def update_session_def get_session_def Let_def)

theorem update_proficiency_clamps_and_levels_witness:
  "get_session example_store ''s1'' = Some example_session
   \<and> (\<exists>r' s'. update_proficiency example_store ''s1'' 5 = (r', True)
           \<and> get_session r' ''s1'' = Some s'
           \<and> proficiency_score s' = max 0 (min 100 (proficiency_score example_session + 5))
           \<and> 0 \<le> proficiency_score s' \<and> proficiency_score s' \<le> 100
           \<and> (difficulty_level s' = advanced \<longleftrightarrow> proficiency_score s' \<ge> 75)
           \<and> (difficulty_level s' = intermediate
                 \<longleftrightarrow> 40 \<le> proficiency_score s' \<and> proficiency_score s' < 75)
           \<and> (difficulty_level s' = beginner \<longleftrightarrow> proficiency_score s' < 40))"
  using example_store_session
    update_proficiency_clamps_and_levels [OF example_store_session, of 5]
  by simp

section \<open>Proficiency estimator\<close>

text \<open>
  C2, as the code has it. For the empty utterance the estimator returns 0 on a beginner
  session, -1 on an intermediate session and -2 on an advanced session: the empty
  utterance has fewer than three words and a mean sentence length below three, and the
  rules for short utterances apply to it.
\<close>

theorem analyze_proficiency_empty:
  "score_change (analyze_proficiency [] s) =
     (if difficulty_level s = advanced then - 2
      else if difficulty_level s = intermediate then - 1
      else 0)"
  by (cases "difficulty_level s")
     (simp_all add: analyze_proficiency_def complexity_of_def split_def count_def Let_def)

text \<open>
  The specification's statement that the delta is 0 for the empty utterance at every
  level fails on a freshly created (intermediate) session.
\<close>

theorem analyze_proficiency_empty_counterexample:
  "\<not> score_change (analyze_proficiency [] example_session) = 0"
  by (simp add: analyze_proficiency_def complexity_of_def split_def count_def Let_def
        example_session_def)

text \<open>
  C10. The score delta does not depend on the current proficiency score: two sessions
  with the same difficulty level get the same delta for the same utterance, whatever
  their scores (and whatever their other fields).
\<close>

theorem analyze_proficiency_ignores_score:
  "difficulty_level s1 = difficulty_level s2 \<Longrightarrow>
   score_change (analyze_proficiency message s1) = score_change (analyze_proficiency message s2)"
  by (simp add: analyze_proficiency_def Let_def)

theorem analyze_proficiency_ignores_score_witness:
  "difficulty_level example_session = difficulty_level (example_session\<lparr> proficiency_score := 74 \<rparr>)
   \<and> score_change (analyze_proficiency ''ok'' example_session) =
       score_change (analyze_proficiency ''ok'' (example_session\<lparr> proficiency_score := 74 \<rparr>))"
  using analyze_proficiency_ignores_score
          [of example_session "example_session\<lparr> proficiency_score := 74 \<rparr>" "''ok''"]
  by simp

section \<open>Response orchestrator: recording an exchange\<close>

text \<open>
  C3, as the code has it. Processing one student message on a live, active session with
  a generation collaborator that answers returns a reply and appends exactly two turns to
  that session's history, the student turn (with the level and score in effect) followed
  by the teacher turn (with the strategy and the number of snippets retrieved). The
  interaction counter is incremented once for each appended turn, so it grows by two per
  submission.
\<close>

theorem process_student_message_two_turns:
  assumes "get_session r sid = Some s" and "session_status s = active"
    and "\<And>messages. active_model env messages \<noteq> None"
  shows "\<exists>r' out s'.
           process_student_message env r sid message = (r', Inr out)
         \<and> get_session r' sid = Some s'
         \<and> conversation_history s' = conversation_history s @
               [StudentTurn message (now env 0) (res_difficulty_level out) (res_proficiency_score out),
                TeacherTurn (res_response out) (now env 1) (res_teaching_strategy out)
                  (length (search_by_difficulty env message
                             (level_name (res_difficulty_level out)) (subject s)))]
         \<and> interaction_count s' = interaction_count s + 2"
  using process_student_message_appends [OF assms] .

theorem process_student_message_two_turns_witness:
  "get_session example_store ''s1'' = Some example_session
   \<and> session_status example_session = active
   \<and> (\<forall>messages. active_model example_env messages \<noteq> None)
   \<and> (\<exists>r' out s'.
           process_student_message example_env example_store ''s1'' ''Hi'' = (r', Inr out)
         \<and> get_session r' ''s1'' = Some s'
         \<and> conversation_history s' = conversation_history example_session @
               [StudentTurn ''Hi'' (now example_env 0) (res_difficulty_level out)
                  (res_proficiency_score out),
                TeacherTurn (res_response out) (now example_env 1) (res_teaching_strategy out)
                  (length (search_by_difficulty example_env ''Hi''
                             (level_name (res_difficulty_level out)) (subject example_session)))]
         \<and> interaction_count s' = interaction_count example_session + 2)"
proof -
  have a: "session_status example_session = active"
    by (simp add: example_session_def)
  have m: "active_model example_env messages \<noteq> None" for messages
    by (simp add: example_env_def)
  show ?thesis
    using example_store_session a m
      process_student_message_two_turns [OF example_store_session a m, of "''Hi''"]
    by blast
qed

text \<open>
  The specification's statement that the counter is incremented exactly once per
  submission fails on the first message of a new session: the counter goes from 0 to 2.
\<close>

theorem interaction_count_once_counterexample:
  "\<not> map_option interaction_count
        (get_session (fst (process_student_message example_env example_store ''s1'' ''Hi'')) ''s1'')
      = Some (interaction_count example_session + 1)"
proof -
  have a: "session_status example_session = active"
    by (simp add: example_session_def)
  have m: "active_model example_env messages \<noteq> None" for messages
    by (simp add: example_env_def)
  obtain r' out s' where
    "process_student_message example_env example_store ''s1'' ''Hi'' = (r', Inr out)"
    "get_session r' ''s1'' = Some s'"
    "interaction_count s' = interaction_count example_session + 2"
    using process_student_message_appends [OF example_store_session a m, of "''Hi''"] by blast
  then show ?thesis by simp
qed

text \<open>
  C7. When the generation collaborator fails, \<open>process_student_message\<close> returns an
  error result (one of the three error texts of the function) and records neither the
  student turn nor the teacher turn: the history and the interaction counter of every
  session are what they were before the call. (A proficiency update made earlier in the
  same call is kept.)
\<close>

theorem process_student_message_generation_failure:
  assumes "\<And>messages. active_model env messages = None"
  shows "\<exists>r' e. process_student_message env r sid message = (r', Inl e)
           \<and> e \<in> set [''Invalid session'', ''Session is not active'', ''Failed to process message'']
           \<and> (\<forall>k. map_option conversation_history (get_session r' k) =
                    map_option conversation_history (get_session r k))
           \<and> (\<forall>k. map_option interaction_count (get_session r' k) =
                    map_option interaction_count (get_session r k))"
proof (cases "get_session r sid")
  case None
  then show ?thesis by (simp add: process_student_message_def)
next
  case (Some s)
  show ?thesis
  proof (cases "session_status s = active")
    case False
    with Some show ?thesis by (simp add: process_student_message_def)
  next
    case True
    obtain r1 s1 where p: "process_student_message env r sid message = respond env r1 sid message s1"
      and g1: "get_session r1 sid = Some s1"
      and other: "\<forall>k. k \<noteq> sid \<longrightarrow> get_session r1 k = get_session r k"
      and same: "conversation_history s1 = conversation_history s"
                "interaction_count s1 = interaction_count s"
      using process_student_message_active [OF Some True] by metis
    have res: "process_student_message env r sid message = (r1, Inl ''Failed to process message'')"
      using p by (simp add: respond_fails [OF assms])
    have "map_option conversation_history (get_session r1 k) =
          map_option conversation_history (get_session r k)"
         "map_option interaction_count (get_session r1 k) =
          map_option interaction_count (get_session r k)" for k
      using other g1 Some same by (cases "k = sid"; simp)+
    with res show ?thesis by simp
  qed
qed

theorem process_student_message_generation_failure_witness:
  "(\<forall>messages. active_model no_model_env messages = None)
   \<and> (\<exists>r' e. process_student_message no_model_env example_store ''s1'' ''Hi'' = (r', Inl e)
           \<and> e \<in> set [''Invalid session'', ''Session is not active'', ''Failed to process message'']
           \<and> (\<forall>k. map_option conversation_history (get_session r' k) =
                    map_option conversation_history (get_session example_store k))
           \<and> (\<forall>k. map_option interaction_count (get_session r' k) =
                    map_option interaction_count (get_session example_store k)))"
proof -
  have m: "active_model no_model_env messages = None" for messages
    by (simp add: no_model_env_def)
  show ?thesis
    using m process_student_message_generation_failure
                [of no_model_env example_store "''s1''" "''Hi''", OF m]
    by blast
qed

section \<open>Response orchestrator: strategy selection\<close>

text \<open>
  C5. The strategy tag is a function of the interaction counter and the utterance alone,
  and it is the tag that \<open>generate_adaptive_response\<close> returns. The rules are tried in
  the fixed order assessment, test preparation, concept teaching, session ending, general
  teaching, and the first that applies wins. A counter below 3 gives assessment for every
  utterance; with a counter of at least 3 the utterance
  \<open>Can you explain the past tense?\<close> gives concept teaching.
\<close>

theorem strategy_selection:
  "snd (select_instruction message s) =
     (if interaction_count s < 3 then assessment
      else if contains_any message [''test'', ''quiz'', ''exam'', ''practice''] then test_prep
      else if CHR ''?'' \<in> set message
              \<or> contains_any message [''what'', ''how'', ''why'', ''when'', ''where'']
           then concept_teaching
      else if contains_any message [''bye'', ''goodbye'', ''end'', ''finish'', ''stop'', ''done'']
           then session_ending
      else general_teaching)
   \<and> (interaction_count s = interaction_count s2 \<longrightarrow>
        snd (select_instruction message s) = snd (select_instruction message s2))
   \<and> (generate_adaptive_response env message s results = Some (reply, strat) \<longrightarrow>
        strat = snd (select_instruction message s))
   \<and> (interaction_count s < 3 \<longrightarrow> snd (select_instruction message s) = assessment)
   \<and> (interaction_count late \<ge> 3 \<longrightarrow>
        snd (select_instruction ''Can you explain the past tense?'' late) = concept_teaching)"
proof -
  have "interaction_count late \<ge> 3 \<Longrightarrow>
        snd (select_instruction ''Can you explain the past tense?'' late) = concept_teaching"
    by (simp add: select_instruction_def contains_any_def lower_def lower_char_def
          sublist_Cons_right)
  moreover have "generate_adaptive_response env message s results = Some (reply, strat) \<Longrightarrow>
        strat = snd (select_instruction message s)"
    by (rule generate_strategy)
  moreover have "snd (select_instruction message s) =
     (if interaction_count s < 3 then assessment
      else if contains_any message [''test'', ''quiz'', ''exam'', ''practice''] then test_prep
      else if CHR ''?'' \<in> set message
              \<or> contains_any message [''what'', ''how'', ''why'', ''when'', ''where'']
           then concept_teaching
      else if contains_any message [''bye'', ''goodbye'', ''end'', ''finish'', ''stop'', ''done'']
           then session_ending
      else general_teaching)"
    by (simp add: select_instruction_def)
  moreover have "interaction_count s = interaction_count s2 \<Longrightarrow>
        snd (select_instruction message s) = snd (select_instruction message s2)"
    by (simp add: select_instruction_def)
  moreover have "interaction_count s < 3 \<Longrightarrow> snd (select_instruction message s) = assessment"
    by (simp add: select_instruction_def)
  ultimately show ?thesis by blast
qed

theorem strategy_selection_witness:
  "interaction_count example_session =
     interaction_count (example_session\<lparr> proficiency_score := 10, difficulty_level := beginner \<rparr>)
   \<and> snd (select_instruction ''quiz me'' example_session) =
       snd (select_instruction ''quiz me''
              (example_session\<lparr> proficiency_score := 10, difficulty_level := beginner \<rparr>))
   \<and> generate_adaptive_response example_env ''quiz me'' example_session [] =
       Some (''Hello! What would you like to learn?'', assessment)
   \<and> interaction_count example_session < 3
   \<and> snd (select_instruction ''quiz me'' example_session) = assessment
   \<and> interaction_count (example_session\<lparr> interaction_count := 4 \<rparr>) \<ge> 3
   \<and> snd (select_instruction ''Can you explain the past tense?''
            (example_session\<lparr> interaction_count := 4 \<rparr>)) = concept_teaching"
proof -
  have c: "interaction_count example_session = 0"
    by (simp add: example_session_def)
  have g: "generate_adaptive_response example_env ''quiz me'' example_session [] =
       Some (''Hello! What would you like to learn?'', assessment)"
    by (simp add: generate_adaptive_response_def select_instruction_def c Let_def example_env_def)
  show ?thesis
    using c g
      strategy_selection [of "''quiz me''" example_session
        "example_session\<lparr> proficiency_score := 10, difficulty_level := beginner \<rparr>"
        example_env "[]" "''Hello! What would you like to learn?''" assessment
        "example_session\<lparr> interaction_count := 4 \<rparr>"]
    by auto
qed

section \<open>Retrieval engine\<close>

text \<open>
  C6, evaluated on the code. The content table holds two rows whose embeddings are
  \<open>[1, 0]\<close> and \<open>[0, 1]\<close>, and the query embedding is \<open>[0, 1]\<close>: the cosine
  similarity of the query is 0 with the first row and 1 with the second. The search
  returns the first row first and gives both rows the relevance 0.8, so the ranking key
  is not the cosine similarity.
\<close>

theorem hybrid_search_placeholder_score:
  "embed_query example_env ''past tense'' = Some [0, 1]
   \<and> map doc_embedding example_documents = [[1, 0], [0, 1]]
   \<and> hybrid_search example_env ''past tense'' [(''subject'', ''english'')] 5 =
     [\<lparr> content = ''Nouns name things.'', metadata = [], score = 0.8 \<rparr>,
      \<lparr> content = ''The past tense describes finished actions.'', metadata = [], score = 0.8 \<rparr>]
   \<and> spec_cosine_similarity [0, 1] [1, 0] = 0
   \<and> spec_cosine_similarity [0, 1] [0, 1] = 1"
  by (simp add: hybrid_search_rows [where e = "[0, 1]" and rows = example_documents]
        example_env_def example_documents_def matches_filters_def
        spec_cosine_similarity_def dot_def)

text \<open>
  C9. The search returns the empty sequence when the embedding provider raises, when the
  content store raises, when the store is empty and when no stored row passes the
  filters. An empty result is rendered as \<open>No specific context found.\<close>, and with a
  failing retrieval a message on a live, active session is still answered: the reply is
  returned and the teacher turn records that no snippet was used.
\<close>

theorem hybrid_search_empty:
  "(embed_query env_e query = None \<longrightarrow> hybrid_search env_e query filters limit = [])
   \<and> (documents_table env_d = None \<longrightarrow> hybrid_search env_d query filters limit = [])
   \<and> (documents_table env_0 = Some [] \<longrightarrow> hybrid_search env_0 query filters limit = [])
   \<and> (documents_table env = Some rows \<and> filter (matches_filters filters) rows = [] \<longrightarrow>
        hybrid_search env query filters limit = [])
   \<and> build_context [] = ''No specific context found.''
   \<and> ((embed_query env_p message = None \<or> documents_table env_p = None)
        \<and> get_session r sid = Some s \<and> session_status s = active
        \<and> (\<forall>messages. active_model env_p messages \<noteq> None) \<longrightarrow>
        (\<exists>r' out s'.
            process_student_message env_p r sid message = (r', Inr out)
          \<and> get_session r' sid = Some s'
          \<and> conversation_history s' = conversation_history s @
               [StudentTurn message (now env_p 0) (res_difficulty_level out) (res_proficiency_score out),
                TeacherTurn (res_response out) (now env_p 1) (res_teaching_strategy out) 0]))"
proof -
  have "hybrid_search env_0 query filters limit = []" if "documents_table env_0 = Some []"
    using hybrid_search_no_match [OF that] by simp
  moreover have "\<exists>r' out s'.
            process_student_message env_p r sid message = (r', Inr out)
          \<and> get_session r' sid = Some s'
          \<and> conversation_history s' = conversation_history s @
               [StudentTurn message (now env_p 0) (res_difficulty_level out) (res_proficiency_score out),
                TeacherTurn (res_response out) (now env_p 1) (res_teaching_strategy out) 0]"
    if f: "embed_query env_p message = None \<or> documents_table env_p = None"
      and g: "get_session r sid = Some s" and a: "session_status s = active"
      and m: "\<forall>messages. active_model env_p messages \<noteq> None"
  proof -
    have e: "search_by_difficulty env_p message lv sb = []" for lv sb
      using f hybrid_search_embed_fails hybrid_search_store_fails
      by (auto simp: search_by_difficulty_def)
    have m': "active_model env_p messages \<noteq> None" for messages
      using m by simp
    show ?thesis
      using process_student_message_appends [OF g a m', of message] by (auto simp: e)
  qed
  ultimately show ?thesis
    using hybrid_search_embed_fails hybrid_search_store_fails hybrid_search_no_match
    by (simp add: build_context_def)
qed

theorem hybrid_search_empty_witness:
  "embed_query no_embedding_env ''past tense'' = None
   \<and> hybrid_search no_embedding_env ''past tense'' [(''subject'', ''math'')] 5 = []
   \<and> documents_table no_content_env = None
   \<and> hybrid_search no_content_env ''past tense'' [(''subject'', ''math'')] 5 = []
   \<and> documents_table empty_content_env = Some []
   \<and> hybrid_search empty_content_env ''past tense'' [(''subject'', ''math'')] 5 = []
   \<and> documents_table example_env = Some example_documents
   \<and> filter (matches_filters [(''subject'', ''math'')]) example_documents = []
   \<and> hybrid_search example_env ''past tense'' [(''subject'', ''math'')] 5 = []
   \<and> (embed_query no_embedding_env ''Hi'' = None \<or> documents_table no_embedding_env = None)
   \<and> get_session example_store ''s1'' = Some example_session
   \<and> session_status example_session = active
   \<and> (\<forall>messages. active_model no_embedding_env messages \<noteq> None)
   \<and> (\<exists>r' out s'.
          process_student_message no_embedding_env example_store ''s1'' ''Hi'' = (r', Inr out)
        \<and> get_session r' ''s1'' = Some s'
        \<and> conversation_history s' = conversation_history example_session @
             [StudentTurn ''Hi'' (now no_embedding_env 0) (res_difficulty_level out)
                (res_proficiency_score out),
              TeacherTurn (res_response out) (now no_embedding_env 1)
                (res_teaching_strategy out) 0])"
proof -
  have h: "embed_query no_embedding_env q = None"
          "documents_table no_content_env = None"
          "documents_table empty_content_env = Some []"
          "documents_table example_env = Some example_documents"
          "filter (matches_filters [(''subject'', ''math'')]) example_documents = []"
          "session_status example_session = active"
          "\<forall>messages. active_model no_embedding_env messages \<noteq> None" for q
    by (simp_all add: no_embedding_env_def no_content_env_def empty_content_env_def
          example_env_def example_documents_def matches_filters_def example_session_def)
  show ?thesis
    using h example_store_session
      hybrid_search_empty [of no_embedding_env "''past tense''" "[(''subject'', ''math'')]" 5
        no_content_env empty_content_env example_env example_documents
        no_embedding_env "''Hi''" example_store "''s1''" example_session]
    by simp
qed

section \<open>Ending a session\<close>

text \<open>
  C4, as the code has it. When the insert of the conversation history or of the session
  summary fails, \<open>end_session\<close> reports failure to its caller, and the live session
  record is deleted all the same: a retry of \<open>end_session\<close> finds no live session,
  returns the not-found outcome and changes nothing.
\<close>

theorem end_session_write_failure:
  assumes "get_session (redis_store st) sid = Some s"
    and "insert_result_of env ''conversation_history'' \<noteq> InsertStored
         \<or> insert_result_of env ''session_summaries'' \<noteq> InsertStored"
  shows "\<exists>st'. end_session env st sid ux = (st', False)
           \<and> get_session (redis_store st') sid = None
           \<and> end_session env2 st' sid ux2 = (st', False)"
proof -
  obtain st' ok where e: "end_session env st sid ux = (st', ok)"
    by (cases "end_session env st sid ux")
  have "ok = False"
    using end_session_write_fails [OF assms, of ux] e by simp
  moreover have d: "get_session (redis_store st') sid = None"
    using end_session_deletes [of env st sid ux] e by simp
  moreover have "end_session env2 st' sid ux2 = (st', False)"
    using end_session_unknown [OF d] .
  ultimately show ?thesis using e by simp
qed

theorem end_session_write_failure_witness:
  "get_session (redis_store example_stores) ''s1'' = Some example_session
   \<and> insert_result_of no_sink_env ''conversation_history'' = InsertRaises
   \<and> (\<exists>st'. end_session no_sink_env example_stores ''s1'' [] = (st', False)
           \<and> get_session (redis_store st') ''s1'' = None
           \<and> end_session example_env st' ''s1'' [] = (st', False))"
proof -
  have g: "get_session (redis_store example_stores) ''s1'' = Some example_session"
    by (simp add: example_stores_def example_store_session)
  have f: "insert_result_of no_sink_env ''conversation_history'' \<noteq> InsertStored
       \<or> insert_result_of no_sink_env ''session_summaries'' \<noteq> InsertStored"
    by (simp add: no_sink_env_def)
  have i: "insert_result_of no_sink_env ''conversation_history'' = InsertRaises"
    by (simp add: no_sink_env_def)
  show ?thesis
    using g i end_session_write_failure [OF g f, of "[]" example_env "[]"] by blast
qed

text \<open>
  The specification's statement that the live record is still there after a failed write
  fails when every insert raises: the call reports failure and the session is gone.
\<close>

theorem end_session_keeps_session_counterexample:
  "\<not> (snd (end_session no_sink_env example_stores ''s1'' []) = False
       \<and> get_session (redis_store (fst (end_session no_sink_env example_stores ''s1'' []))) ''s1''
           \<noteq> None)"
  by (simp add: end_session_deletes)

text \<open>
  C8. Ending an unknown session returns the not-found outcome \<open>False\<close> and leaves the
  live store and the durable tables as they were. After any call of \<open>end_session\<close> the
  session is no longer in the live store, so a second call on the same session returns
  \<open>False\<close> as well and changes nothing.
\<close>

theorem end_session_unknown_or_repeated:
  "(get_session (redis_store st0) sid = None \<longrightarrow> end_session env st0 sid ux = (st0, False))
   \<and> get_session (redis_store (fst (end_session env st sid ux))) sid = None
   \<and> end_session env2 (fst (end_session env st sid ux)) sid ux2 =
       (fst (end_session env st sid ux), False)"
  using end_session_unknown end_session_deletes by blast

theorem end_session_unknown_or_repeated_witness:
  "get_session (redis_store (example_stores\<lparr> redis_store := Map.empty \<rparr>)) ''s1'' = None
   \<and> end_session example_env (example_stores\<lparr> redis_store := Map.empty \<rparr>) ''s1'' [] =
       (example_stores\<lparr> redis_store := Map.empty \<rparr>, False)
   \<and> get_session (redis_store (fst (end_session example_env example_stores ''s1'' []))) ''s1'' = None
   \<and> end_session example_env (fst (end_session example_env example_stores ''s1'' [])) ''s1'' [] =
       (fst (end_session example_env example_stores ''s1'' []), False)"
proof -
  have n: "get_session (redis_store (example_stores\<lparr> redis_store := Map.empty \<rparr>)) ''s1'' = None"
    by (simp add: get_session_def)
  show ?thesis
    using n end_session_unknown_or_repeated
              [of "example_stores\<lparr> redis_store := Map.empty \<rparr>" "''s1''" example_env "[]"
                  example_stores example_env "[]"]
    by simp
qed

end
